theory Spec2Isabelle
  imports Main
begin

section \<open>Text\<close>

text \<open>
  A Python \<open>str\<close> is a sequence of Unicode code points; it is modelled as the list of
  these code points. \<open>u\<close> turns an ASCII literal into such a list; code points beyond
  ASCII (and the apostrophe and the backslash) are written as numbers.
\<close>

type_synonym str = "nat list"

definition u :: "string \<Rightarrow> str" where
  "u lit = map of_char lit"

text \<open>The code points \<open>str.strip()\<close> removes when called without argument.\<close>

definition isspace :: "nat \<Rightarrow> bool" where
  "isspace c \<longleftrightarrow>
     (9 \<le> c \<and> c \<le> 13) \<or> (28 \<le> c \<and> c \<le> 32) \<or> c = 133 \<or> c = 160 \<or> c = 5760 \<or>
     (8192 \<le> c \<and> c \<le> 8202) \<or> c = 8232 \<or> c = 8233 \<or> c = 8239 \<or> c = 8287 \<or> c = 12288"

text \<open>The code points at which \<open>str.splitlines()\<close> breaks a line.\<close>

definition is_linebreak :: "nat \<Rightarrow> bool" where
  "is_linebreak c \<longleftrightarrow>
     (10 \<le> c \<and> c \<le> 13) \<or> (28 \<le> c \<and> c \<le> 30) \<or> c = 133 \<or> c = 8232 \<or> c = 8233"

definition strip :: "str \<Rightarrow> str" where
  "strip t = rev (dropWhile isspace (rev (dropWhile isspace t)))"

text \<open>\<open>code.rstrip('\n')\<close>: only line feeds are removed, and only at the end.\<close>

definition rstrip_newline :: "str \<Rightarrow> str" where
  "rstrip_newline t = rev (dropWhile (\<lambda>c. c = 10) (rev t))"

text \<open>
  \<open>str.splitlines()\<close>: the first argument is the line read so far. A carriage return
  followed by a line feed is one break; the text after the last break is a line only
  when it is not empty.
\<close>

fun splitlines_from :: "str \<Rightarrow> str \<Rightarrow> str list" where
  "splitlines_from cur [] = (if cur = [] then [] else [cur])"
| "splitlines_from cur [c] =
     (if is_linebreak c then [cur] else [cur @ [c]])"
| "splitlines_from cur (c # d # t) =
     (if c = 13 \<and> d = 10 then cur # splitlines_from [] t
      else if is_linebreak c then cur # splitlines_from [] (d # t)
      else splitlines_from (cur @ [c]) (d # t))"

definition splitlines :: "str \<Rightarrow> str list" where
  "splitlines t = splitlines_from [] t"

section \<open>Constants of the kernel\<close>

definition FILE_PROMPT_PAT :: str where
  "FILE_PROMPT_PAT =
     u ''Enter new datafile name'' @ [92] @ u ''s*'' @ [92] @
     u ''(none to continue, q to quit'' @ [92] @ u ''):'' @ [92] @ u ''s*''"

definition MAIN_PROMPT_PAT :: str where
  "MAIN_PROMPT_PAT = u ''Enter command:'' @ [92] @ u ''s*''"

definition fallback_pat :: str where
  "fallback_pat = u ''> ''"

definition msg_no_datafile_prompt :: str where
  "msg_no_datafile_prompt =
     u ''[EvolverKernel] No vi prompt de datafile; contin'' @ [250] @ u ''o.'' @ [10]"

definition msg_no_main_prompt :: str where
  "msg_no_main_prompt =
     u ''[EvolverKernel] No vi prompt principal; uso fallback '' @ [39] @ u ''> '' @ [39] @
     u ''.'' @ [10]"

definition msg_fallback :: str where
  "msg_fallback = u ''[EvolverKernel] Evolver lanzado con prompt fallback.'' @ [10]"

definition msg_ready :: str where
  "msg_ready = u ''[EvolverKernel] Evolver lanzado. Prompt principal listo.'' @ [10]"

definition msg_launch_error :: "str \<Rightarrow> str" where
  "msg_launch_error e = u ''[EvolverKernel] ERROR lanzando Evolver: '' @ e @ [10]"

definition msg_cannot_launch :: str where
  "msg_cannot_launch = u ''[EvolverKernel] ERROR: no pude lanzar Surface Evolver.'' @ [10]"

definition msg_eof :: str where
  "msg_eof = u ''[EvolverKernel] Evolver muri'' @ [243] @ u '' (EOF); reinicio.'' @ [10]"

definition msg_exception :: "str \<Rightarrow> str \<Rightarrow> str" where
  "msg_exception ln e =
     u ''[EvolverKernel] Excepci'' @ [243] @ u ''n ejecutando '' @ [39] @ ln @ [39] @
     u '': '' @ e @ [10]"

definition msg_none_has_no :: "string \<Rightarrow> str" where
  "msg_none_has_no attr =
     [39] @ u ''NoneType'' @ [39] @ u '' object has no attribute '' @ [39] @ u attr @ [39]"

section \<open>Exceptions, signals, events\<close>

text \<open>
  The exceptions the kernel meets, each with its \<open>str()\<close>. \<open>TIMEOUT\<close> and \<open>EOF\<close> are
  pexpect's; \<open>Error\<close> is any other subclass of \<open>Exception\<close> (a failed spawn, an
  \<open>AttributeError\<close>, an \<open>OSError\<close>). \<open>KeyboardInterrupt\<close> derives from
  \<open>BaseException\<close> only, so \<open>except Exception\<close> lets it pass.
\<close>

datatype exn = TIMEOUT str | EOF str | KeyboardInterrupt | Error str

fun is_Exception :: "exn \<Rightarrow> bool" where
  "is_Exception KeyboardInterrupt = False"
| "is_Exception _ = True"

fun str_of :: "exn \<Rightarrow> str" where
  "str_of (TIMEOUT m) = m"
| "str_of (EOF m) = m"
| "str_of KeyboardInterrupt = []"
| "str_of (Error m) = m"

text \<open>
  The disposition of SIGINT, as \<open>signal.signal\<close> sets and returns it: the system default
  (the signal ends the process), ignore, or Python's \<open>default_int_handler\<close>, which
  raises \<open>KeyboardInterrupt\<close> in the main thread and under which the notebook runs a
  cell. Other handlers (another Python callable, or one installed outside Python, which
  \<open>signal.signal\<close> reports as \<open>None\<close>) are not modelled.
\<close>

datatype sighandler = SIG_DFL | SIG_IGN | default_int_handler

text \<open>Everything the kernel does to the outside, in the order it does it.\<close>

datatype event =
    Signal sighandler
  | Spawn str nat
  | IsAlive nat
  | SendLine nat str
  | Expect nat str "nat option"
  | SendIntr nat
  | Stdout str
  | Stderr str

section \<open>The child process and the environment\<close>

text \<open>
  A \<open>pexpect.spawn\<close> object: \<open>ident\<close> tells the children apart (the n-th launch gets
  n), \<open>logfile\<close> is set when raw traffic is copied to stderr, \<open>before_text\<close> is
  pexpect's \<open>before\<close>, the text the last \<open>expect\<close> left there (pexpect starts it at
  \<open>None\<close>; the kernel reads it only after an \<open>expect\<close>).
\<close>

record spawn =
  ident :: nat
  logfile :: bool
  before_text :: str

text \<open>
  What the child and the user do is not in the kernel's hands: it is a parameter. Each
  call that asks the outside world something reads the answer for the current tick of
  \<open>clock\<close> and advances it.
  \<^item> \<open>spawn_reply k\<close>: \<open>None\<close> when the launch works, else the message of the
    exception \<open>pexpect.spawn\<close> raises;
  \<^item> \<open>isalive_reply k\<close>: the answer of \<open>child.isalive()\<close>;
  \<^item> \<open>expect_reply k pat timeout\<close>: how a wait for \<open>pat\<close> ends when nobody cancels it,
    and the text then left in \<open>before\<close>;
  \<^item> \<open>cancel_reply k timeout\<close>: whether a cancellation request (SIGINT to the kernel)
    arrives during that wait.
  Sending a line or an interrupt to a child, and asking whether it is alive, have no
  failure of their own; writing to stdout and stderr never fails.
\<close>

datatype wait_result = Matched | TimedOut str | EndOfStream str | Failed str

record env =
  spawn_reply :: "nat \<Rightarrow> str option"
  isalive_reply :: "nat \<Rightarrow> bool"
  expect_reply :: "nat \<Rightarrow> str \<Rightarrow> nat option \<Rightarrow> wait_result \<times> str"
  cancel_reply :: "nat \<Rightarrow> nat option \<Rightarrow> bool"

section \<open>The kernel\<close>

text \<open>
  The fields of \<open>EvolverKernel\<close> that the code reads or writes (\<open>execution_count\<close>
  belongs to the base class), and with them the state of the process around it: the
  disposition of SIGINT, the number of children launched, the clock and the events so far.
\<close>

record kernel =
  evolver_cmd :: str
  default_datafile :: str
  debug :: bool
  child :: "spawn option"
  prompt_pat :: str
  execution_count :: nat
  sigint :: sighandler
  spawns :: nat
  clock :: nat
  trace :: "event list"

definition emit :: "event \<Rightarrow> kernel \<Rightarrow> kernel" where
  "emit ev s = s\<lparr>trace := trace s @ [ev]\<rparr>"

definition emit_stdout :: "str \<Rightarrow> kernel \<Rightarrow> kernel" where
  "emit_stdout text s = emit (Stdout text) s"

definition emit_stderr :: "str \<Rightarrow> kernel \<Rightarrow> kernel" where
  "emit_stderr text s = emit (Stderr text) s"

text \<open>\<open>signal.signal(signal.SIGINT, h)\<close> installs \<open>h\<close> and returns what was there.\<close>

definition signal_SIGINT :: "sighandler \<Rightarrow> kernel \<Rightarrow> sighandler \<times> kernel" where
  "signal_SIGINT h s = (sigint s, emit (Signal h) (s\<lparr>sigint := h\<rparr>))"

definition pexpect_spawn :: "env \<Rightarrow> nat \<Rightarrow> kernel \<Rightarrow> (exn + spawn) \<times> kernel" where
  "pexpect_spawn env timeout s =
     (let s1 = emit (Spawn (evolver_cmd s) timeout) (s\<lparr>clock := Suc (clock s)\<rparr>)
      in case spawn_reply env (clock s) of
           Some m \<Rightarrow> (Inl (Error m), s1)
         | None \<Rightarrow>
             (Inr \<lparr>ident = spawns s, logfile = False, before_text = []\<rparr>,
              s1\<lparr>spawns := Suc (spawns s)\<rparr>))"

definition sendline :: "spawn \<Rightarrow> str \<Rightarrow> kernel \<Rightarrow> kernel" where
  "sendline c text s = emit (SendLine (ident c) text) s"

definition sendintr :: "spawn \<Rightarrow> kernel \<Rightarrow> kernel" where
  "sendintr c s = emit (SendIntr (ident c)) s"

definition isalive :: "env \<Rightarrow> spawn \<Rightarrow> kernel \<Rightarrow> bool \<times> kernel" where
  "isalive env c s =
     (isalive_reply env (clock s), emit (IsAlive (ident c)) (s\<lparr>clock := Suc (clock s)\<rparr>))"

text \<open>
  How a wait for a pattern ends: \<open>None\<close> when the pattern matched, else the exception
  raised. A cancellation request raises \<open>KeyboardInterrupt\<close> only under
  \<open>default_int_handler\<close>. Ignored, it changes nothing. Under the system default it would
  end the whole process: such a run has nothing after it, so the model follows the runs in
  which the process lives on, and there no request arrived while the default was in force.
\<close>

definition wait_outcome :: "env \<Rightarrow> str \<Rightarrow> nat option \<Rightarrow> kernel \<Rightarrow> exn option" where
  "wait_outcome env pat timeout s =
     (if sigint s = default_int_handler \<and> cancel_reply env (clock s) timeout
      then Some KeyboardInterrupt
      else case fst (expect_reply env (clock s) pat timeout) of
             Matched \<Rightarrow> None
           | TimedOut m \<Rightarrow> Some (TIMEOUT m)
           | EndOfStream m \<Rightarrow> Some (EOF m)
           | Failed m \<Rightarrow> Some (Error m))"

text \<open>
  \<open>child.expect(pat, timeout=timeout)\<close>. However the wait ends, pexpect stores the text
  read so far in \<open>before\<close>.
\<close>

definition expect ::
  "env \<Rightarrow> spawn \<Rightarrow> str \<Rightarrow> nat option \<Rightarrow> kernel \<Rightarrow> exn option \<times> spawn \<times> kernel" where
  "expect env c pat timeout s =
     (wait_outcome env pat timeout s,
      c\<lparr>before_text := snd (expect_reply env (clock s) pat timeout)\<rparr>,
      emit (Expect (ident c) pat timeout) (s\<lparr>clock := Suc (clock s)\<rparr>))"

subsection \<open>Launch and handshake\<close>

text \<open>The two ways \<open>_spawn_and_handshake\<close> returns a child.\<close>

definition handshake_ready :: "spawn \<Rightarrow> kernel \<Rightarrow> (exn + spawn) \<times> kernel" where
  "handshake_ready c s = (Inr c, emit_stdout msg_ready (s\<lparr>prompt_pat := MAIN_PROMPT_PAT\<rparr>))"

definition handshake_fallback :: "spawn \<Rightarrow> kernel \<Rightarrow> (exn + spawn) \<times> kernel" where
  "handshake_fallback c s =
     (Inr c, emit_stdout msg_fallback ((emit_stderr msg_no_main_prompt s)\<lparr>prompt_pat := fallback_pat\<rparr>))"

text \<open>From the answer to the datafile prompt on: the datafile line, then the main prompt.\<close>

definition handshake_main :: "env \<Rightarrow> nat \<Rightarrow> spawn \<Rightarrow> kernel \<Rightarrow> (exn + spawn) \<times> kernel" where
  "handshake_main env timeout c s =
     (case expect env c MAIN_PROMPT_PAT (Some timeout) (sendline c (default_datafile s) s) of
        (None, c1, s1) \<Rightarrow> handshake_ready c1 s1
      | (Some (TIMEOUT m), c1, s1) \<Rightarrow>
          (case expect env c1 MAIN_PROMPT_PAT (Some 5) (sendline c1 [] s1) of
             (None, c2, s2) \<Rightarrow> handshake_ready c2 s2
           | (Some (TIMEOUT m2), c2, s2) \<Rightarrow> handshake_fallback c2 s2
           | (Some e, c2, s2) \<Rightarrow> (Inl e, s2))
      | (Some e, c1, s1) \<Rightarrow> (Inl e, s1))"

text \<open>The body of the \<open>try\<close>: launch, optional tee, datafile prompt, then the rest.\<close>

definition handshake_try :: "env \<Rightarrow> nat \<Rightarrow> kernel \<Rightarrow> (exn + spawn) \<times> kernel" where
  "handshake_try env timeout s =
     (case pexpect_spawn env timeout s of
        (Inl e, s1) \<Rightarrow> (Inl e, s1)
      | (Inr c0, s1) \<Rightarrow>
          (let c = (if debug s1 then c0\<lparr>logfile := True\<rparr> else c0)
           in case expect env c FILE_PROMPT_PAT (Some timeout) s1 of
                (None, c1, s2) \<Rightarrow> handshake_main env timeout c1 s2
              | (Some (TIMEOUT m), c1, s2) \<Rightarrow>
                  handshake_main env timeout c1 (emit_stderr msg_no_datafile_prompt s2)
              | (Some e, c1, s2) \<Rightarrow> (Inl e, s2)))"

text \<open>\<open>_spawn_and_handshake\<close>: the \<open>finally\<close> runs on every way out of the \<open>try\<close>.\<close>

definition spawn_and_handshake :: "env \<Rightarrow> nat \<Rightarrow> kernel \<Rightarrow> (exn + spawn) \<times> kernel" where
  "spawn_and_handshake env timeout s =
     (let (sig, s0) = signal_SIGINT SIG_DFL s;
          (r, s1) = handshake_try env timeout s0
      in (r, snd (signal_SIGINT sig s1)))"

subsection \<open>Liveness\<close>

definition alive :: "env \<Rightarrow> kernel \<Rightarrow> bool \<times> kernel" where
  "alive env s = (case child s of None \<Rightarrow> (False, s) | Some c \<Rightarrow> isalive env c s)"

definition ensure_evolver :: "env \<Rightarrow> kernel \<Rightarrow> (exn + unit) \<times> kernel" where
  "ensure_evolver env s =
     (case alive env s of
        (True, s1) \<Rightarrow> (Inr (), s1)
      | (False, s1) \<Rightarrow>
          (case spawn_and_handshake env 30 s1 of
             (Inr c, s2) \<Rightarrow> (Inr (), s2\<lparr>child := Some c\<rparr>)
           | (Inl e, s2) \<Rightarrow>
               if is_Exception e
               then (Inr (), emit_stderr (msg_launch_error (str_of e)) (s2\<lparr>child := None\<rparr>))
               else (Inl e, s2)))"

subsection \<open>One line\<close>

text \<open>
  \<open>_run_line\<close>, always called with \<open>timeout=None\<close>. The child object is shared with
  \<open>self.child\<close>, so what \<open>expect\<close> writes to \<open>before\<close> is seen there. With no child,
  \<open>self.child.sendline\<close> raises \<open>AttributeError\<close>.
\<close>

definition run_line :: "env \<Rightarrow> str \<Rightarrow> kernel \<Rightarrow> (exn + str) \<times> kernel" where
  "run_line env line s =
     (case child s of
        None \<Rightarrow> (Inl (Error (msg_none_has_no ''sendline'')), s)
      | Some c \<Rightarrow>
          (case expect env c (prompt_pat s) None (sendline c line s) of
             (None, c1, s1) \<Rightarrow> (Inr (before_text c1), s1\<lparr>child := Some c1\<rparr>)
           | (Some e, c1, s1) \<Rightarrow> (Inl e, s1\<lparr>child := Some c1\<rparr>)))"

text \<open>The handler of \<open>KeyboardInterrupt\<close> in the loop of \<open>do_execute\<close>.\<close>

definition on_interrupt :: "env \<Rightarrow> kernel \<Rightarrow> (exn + str) \<times> kernel" where
  "on_interrupt env s =
     (case child s of
        None \<Rightarrow> (Inl (Error (msg_none_has_no ''sendintr'')), s)
      | Some c \<Rightarrow>
          (case expect env c (prompt_pat s) (Some 2) (sendintr c s) of
             (None, c1, s1) \<Rightarrow> (Inr (before_text c1), s1\<lparr>child := Some c1\<rparr>)
           | (Some e, c1, s1) \<Rightarrow>
               if is_Exception e then (Inr (before_text c1), s1\<lparr>child := Some c1\<rparr>)
               else (Inl e, s1\<lparr>child := Some c1\<rparr>)))"

text \<open>The handler of pexpect's \<open>EOF\<close>.\<close>

definition on_eof :: "env \<Rightarrow> kernel \<Rightarrow> (exn + str) \<times> kernel" where
  "on_eof env s =
     (case ensure_evolver env ((emit_stderr msg_eof s)\<lparr>child := None\<rparr>) of
        (Inl e, s1) \<Rightarrow> (Inl e, s1)
      | (Inr _, s1) \<Rightarrow> (Inr [], s1))"

text \<open>The body of the loop: the value is what is appended to \<open>outputs\<close>.\<close>

definition exec_line :: "env \<Rightarrow> str \<Rightarrow> kernel \<Rightarrow> (exn + str) \<times> kernel" where
  "exec_line env ln s =
     (case run_line env ln s of
        (Inr out, s1) \<Rightarrow> (Inr out, s1)
      | (Inl KeyboardInterrupt, s1) \<Rightarrow> on_interrupt env s1
      | (Inl (EOF m), s1) \<Rightarrow> on_eof env s1
      | (Inl e, s1) \<Rightarrow> (Inr (msg_exception ln (str_of e)), s1))"

subsection \<open>A cell\<close>

text \<open>The reply of \<open>do_execute\<close>: status ok, or status error with \<open>ename\<close> and \<open>evalue\<close>.\<close>

datatype reply = Ok_reply nat | Error_reply nat str str

fun is_ok :: "reply \<Rightarrow> bool" where
  "is_ok (Ok_reply n) = True"
| "is_ok (Error_reply n ename evalue) = False"

text \<open>The \<open>for\<close> loop over the lines that are not blank.\<close>

fun do_lines :: "env \<Rightarrow> str list \<Rightarrow> str list \<Rightarrow> kernel \<Rightarrow> (exn + str list) \<times> kernel" where
  "do_lines env [] outputs s = (Inr outputs, s)"
| "do_lines env (ln # lns) outputs s =
     (case exec_line env ln s of
        (Inl e, s1) \<Rightarrow> (Inl e, s1)
      | (Inr out, s1) \<Rightarrow> do_lines env lns (outputs @ [out]) s1)"

text \<open>What follows the loop: join, forward, reply.\<close>

definition finish :: "bool \<Rightarrow> str list \<Rightarrow> kernel \<Rightarrow> (exn + reply) \<times> kernel" where
  "finish silent outputs s =
     (let text = concat outputs
      in (Inr (Ok_reply (execution_count s)),
          if \<not> silent \<and> text \<noteq> [] then emit_stdout text s else s))"

text \<open>The loop and what follows it, from any point of the block.\<close>

definition dispatch ::
  "env \<Rightarrow> bool \<Rightarrow> str list \<Rightarrow> str list \<Rightarrow> kernel \<Rightarrow> (exn + reply) \<times> kernel" where
  "dispatch env silent lns outputs s =
     (case do_lines env lns outputs s of
        (Inl e, s1) \<Rightarrow> (Inl e, s1)
      | (Inr outs, s1) \<Rightarrow> finish silent outs s1)"

definition nonblank_lines :: "str \<Rightarrow> str list" where
  "nonblank_lines code = filter (\<lambda>l. strip l \<noteq> []) (splitlines code)"

definition do_execute :: "env \<Rightarrow> str \<Rightarrow> bool \<Rightarrow> kernel \<Rightarrow> (exn + reply) \<times> kernel" where
  "do_execute env code0 silent s =
     (let code = rstrip_newline code0
      in if strip code = [] then (Inr (Ok_reply (execution_count s)), s)
         else case ensure_evolver env s of
                (Inl e, s1) \<Rightarrow> (Inl e, s1)
              | (Inr _, s1) \<Rightarrow>
                  (case alive env s1 of
                     (False, s2) \<Rightarrow>
                       (Inr (Error_reply (execution_count s2) (u ''RuntimeError'') msg_cannot_launch),
                        if \<not> silent then emit_stderr msg_cannot_launch s2 else s2)
                   | (True, s2) \<Rightarrow> dispatch env silent (nonblank_lines code) [] s2))"

subsection \<open>Counting launches\<close>

fun is_Spawn :: "event \<Rightarrow> bool" where
  "is_Spawn (Spawn cmd timeout) = True"
| "is_Spawn _ = False"

definition launches :: "kernel \<Rightarrow> nat" where
  "launches s = length (filter is_Spawn (trace s))"

section \<open>Sample runs\<close>

text \<open>
  The kernel as \<open>__init__\<close> leaves it when no variable of the environment is set,
  at the start of a cell; and the same kernel holding a child launched earlier.
\<close>

definition kernel_init :: kernel where
  "kernel_init =
     \<lparr>evolver_cmd = u ''evolver'', default_datafile = [], debug = False, child = None,
      prompt_pat = MAIN_PROMPT_PAT, execution_count = 0, sigint = default_int_handler,
      spawns = 0, clock = 0, trace = []\<rparr>"

definition kernel_live :: kernel where
  "kernel_live =
     kernel_init\<lparr>child := Some \<lparr>ident = 0, logfile = False, before_text = []\<rparr>, spawns := 1\<rparr>"

text \<open>A child that answers every wait with its prompt, after writing \<open>ok\<close>.\<close>

definition env_calm :: env where
  "env_calm =
     \<lparr>spawn_reply = (\<lambda>k. None), isalive_reply = (\<lambda>k. True),
      expect_reply = (\<lambda>k pat timeout. (Matched, u ''ok'')),
      cancel_reply = (\<lambda>k timeout. False)\<rparr>"

text \<open>A child that writes nothing before its prompt.\<close>

definition env_mute :: env where
  "env_mute = env_calm\<lparr>expect_reply := (\<lambda>k pat timeout. (Matched, []))\<rparr>"

text \<open>A child that never shows a prompt, and a user who never cancels.\<close>

definition env_no_prompt :: env where
  "env_no_prompt = env_calm\<lparr>expect_reply := (\<lambda>k pat timeout. (TimedOut (u ''timeout''), []))\<rparr>"

text \<open>A child that shows no datafile prompt (the wait at tick 1 of a first launch).\<close>

definition env_no_datafile_prompt :: env where
  "env_no_datafile_prompt =
     env_calm\<lparr>expect_reply :=
       (\<lambda>k pat timeout. if k = 1 then (TimedOut (u ''timeout''), []) else (Matched, u ''ok''))\<rparr>"

text \<open>A child that dies during the first wait; the next launch works.\<close>

definition env_dies :: env where
  "env_dies =
     env_calm\<lparr>expect_reply :=
       (\<lambda>k pat timeout. if k = 0 then (EndOfStream (u ''eof''), []) else (Matched, u ''ok''))\<rparr>"

text \<open>A user who cancels the first wait only; the child then stays silent.\<close>

definition env_cancel_once :: env where
  "env_cancel_once =
     \<lparr>spawn_reply = (\<lambda>k. None), isalive_reply = (\<lambda>k. True),
      expect_reply = (\<lambda>k pat timeout. (TimedOut (u ''timeout''), u ''partial'')),
      cancel_reply = (\<lambda>k timeout. k = 0)\<rparr>"

text \<open>A user who cancels every wait.\<close>

definition env_cancel_all :: env where
  "env_cancel_all = env_calm\<lparr>cancel_reply := (\<lambda>k timeout. True)\<rparr>"

section \<open>Auxiliary facts\<close>

subsection \<open>Blank text\<close>

lemma set_rstrip_newline: "set (rstrip_newline t) \<subseteq> set t"
  unfolding rstrip_newline_def using set_dropWhileD by fastforce

lemma strip_blank: "\<forall>c\<in>set t. isspace c \<Longrightarrow> strip t = []"
proof -
  assume "\<forall>c\<in>set t. isspace c"
  then have d: "dropWhile isspace t = []" by simp
  show ?thesis unfolding strip_def d by simp
qed

subsection \<open>The handshake\<close>

lemmas step_defs = emit_def emit_stdout_def emit_stderr_def signal_SIGINT_def pexpect_spawn_def
  sendline_def sendintr_def isalive_def expect_def


lemma handshake_main_sigint: "sigint (snd (handshake_main env t c s)) = sigint s"
  by (simp add: handshake_ready_def handshake_fallback_def handshake_main_def step_defs split: option.splits exn.splits)



lemma handshake_try_sigint: "sigint (snd (handshake_try env t s)) = sigint s"
  by (simp add: handshake_try_def handshake_main_sigint step_defs Let_def split: option.splits exn.splits)







lemma handshake_main_trace: "\<exists>evs. trace (snd (handshake_main env t c s)) = trace s @ evs"
  by (simp add: handshake_ready_def handshake_fallback_def handshake_main_def step_defs
           split: option.splits exn.splits)

lemma handshake_try_trace: "\<exists>evs. trace (snd (handshake_try env t s)) = trace s @ evs"
proof -
  have m: "\<exists>evs. trace (snd (handshake_main env t c s1)) = trace s @ evs"
    if "trace s1 = trace s @ pre" for c s1 pre
    using handshake_main_trace[of env t c s1] that by auto
  show ?thesis
    by (auto simp: handshake_try_def Let_def pexpect_spawn_def expect_def emit_stderr_def emit_def
             intro!: m split: option.splits exn.splits)
qed







subsection \<open>Lines and the loop\<close>

















lemma run_line_cancelled:
  assumes "child s = Some c" and "sigint s = default_int_handler"
      and "cancel_reply env (clock s) None"
  shows "run_line env ln s =
     (Inl KeyboardInterrupt,
      s\<lparr>child := Some (c\<lparr>before_text := snd (expect_reply env (clock s) (prompt_pat s) None)\<rparr>),
        clock := Suc (clock s),
        trace := trace s @ [SendLine (ident c) ln, Expect (ident c) (prompt_pat s) None]\<rparr>)"
  using assms by (simp add: run_line_def wait_outcome_def step_defs)

lemma on_interrupt_resync:
  assumes "child s = Some c" and "\<not> cancel_reply env (clock s) (Some 2)"
  shows "on_interrupt env s =
     (Inr (snd (expect_reply env (clock s) (prompt_pat s) (Some 2))),
      s\<lparr>child := Some (c\<lparr>before_text := snd (expect_reply env (clock s) (prompt_pat s) (Some 2))\<rparr>),
        clock := Suc (clock s),
        trace := trace s @ [SendIntr (ident c), Expect (ident c) (prompt_pat s) (Some 2)]\<rparr>)"
proof (cases "fst (expect_reply env (clock s) (prompt_pat s) (Some 2))")
  case Matched
  then show ?thesis using assms
    by (simp add: on_interrupt_def wait_outcome_def step_defs)
next
  case (TimedOut m)
  then show ?thesis using assms
    by (simp add: on_interrupt_def wait_outcome_def step_defs)
next
  case (EndOfStream m)
  then show ?thesis using assms
    by (simp add: on_interrupt_def wait_outcome_def step_defs)
next
  case (Failed m)
  then show ?thesis using assms
    by (simp add: on_interrupt_def wait_outcome_def step_defs)
qed


lemma wait_outcome_default:
  "sigint s = SIG_DFL \<Longrightarrow>
   wait_outcome env pat t s =
     (case fst (expect_reply env (clock s) pat t) of
        Matched \<Rightarrow> None
      | TimedOut m \<Rightarrow> Some (TIMEOUT m)
      | EndOfStream m \<Rightarrow> Some (EOF m)
      | Failed m \<Rightarrow> Some (Error m))"
  by (simp add: wait_outcome_def)

lemmas handshake_defs = spawn_and_handshake_def handshake_try_def handshake_main_def
  handshake_ready_def handshake_fallback_def wait_outcome_default step_defs

subsection \<open>Unfolding the sample runs\<close>

lemmas sample_defs = kernel_init_def kernel_live_def env_calm_def env_mute_def env_no_prompt_def
  env_no_datafile_prompt_def env_dies_def env_cancel_once_def env_cancel_all_def

section \<open>The claims\<close>






text \<open>
  C3, as stated, fails when the re-synchronisation does not succeed because it is itself
  cancelled: with a user who cancels every wait, the wait of the line \<open>x\<close> is
  interrupted, the interrupt is sent to the child, and the wait of 2 raises
  \<open>KeyboardInterrupt\<close> again, which \<open>except Exception\<close> does not catch. No output is
  recorded for the line, the loop is left, and the line \<open>y\<close> is never sent.
\<close>

theorem cancel_resync_counterexample:
  "fst (run_line env_cancel_all (u ''x'') kernel_live) = Inl KeyboardInterrupt \<and>
   fst (exec_line env_cancel_all (u ''x'') kernel_live) = Inl KeyboardInterrupt \<and>
   do_lines env_cancel_all [u ''x'', u ''y''] [] kernel_live =
     (Inl KeyboardInterrupt,
      kernel_live\<lparr>child := Some \<lparr>ident = 0, logfile = False, before_text = u ''ok''\<rparr>,
        clock := 2,
        trace := [SendLine 0 (u ''x''), Expect 0 MAIN_PROMPT_PAT None, SendIntr 0,
                  Expect 0 MAIN_PROMPT_PAT (Some 2)]\<rparr>)"
  by (simp add: exec_line_def run_line_def on_interrupt_def wait_outcome_def step_defs
        sample_defs)

text \<open>
  C3, amended. When the wait for the prompt of a line is interrupted by a cancellation
  request, and no second request arrives during the re-synchronisation, the kernel sends
  an interrupt to the child, waits up to 2 for the active prompt pattern, and records as
  the line's output the text that wait left in \<open>before\<close>, whether it matched, timed out,
  met the end of the stream or failed otherwise. The events of the line are exactly: the
  line sent, the unbounded wait, the interrupt, the wait of 2. The loop goes on with the
  next line on the same child: nothing is launched.
\<close>

theorem cancel_resync:
  assumes "child s = Some c"
      and "sigint s = default_int_handler"
      and "cancel_reply env (clock s) None"
      and "\<not> cancel_reply env (Suc (clock s)) (Some 2)"
      and "b = snd (expect_reply env (Suc (clock s)) (prompt_pat s) (Some 2))"
      and "s' = s\<lparr>child := Some (c\<lparr>before_text := b\<rparr>), clock := Suc (Suc (clock s)),
                 trace := trace s @
                   [SendLine (ident c) ln, Expect (ident c) (prompt_pat s) None,
                    SendIntr (ident c), Expect (ident c) (prompt_pat s) (Some 2)]\<rparr>"
  shows "exec_line env ln s = (Inr b, s') \<and>
         do_lines env (ln # lns) outputs s = do_lines env lns (outputs @ [b]) s' \<and>
         spawns s' = spawns s \<and> launches s' = launches s"
proof -
  let ?c1 = "c\<lparr>before_text := snd (expect_reply env (clock s) (prompt_pat s) None)\<rparr>"
  let ?s1 = "s\<lparr>child := Some ?c1, clock := Suc (clock s),
        trace := trace s @ [SendLine (ident c) ln, Expect (ident c) (prompt_pat s) None]\<rparr>"
  have r: "run_line env ln s = (Inl KeyboardInterrupt, ?s1)"
    using assms(1-3) by (rule run_line_cancelled)
  have c1: "child ?s1 = Some ?c1" by simp
  have n: "\<not> cancel_reply env (clock ?s1) (Some 2)" using assms(4) by simp
  have i: "on_interrupt env ?s1 = (Inr b, s')"
    unfolding on_interrupt_resync[OF c1 n] assms(5,6) by simp
  have e: "exec_line env ln s = (Inr b, s')"
    by (simp add: exec_line_def r i)
  have "spawns s' = spawns s" "launches s' = launches s"
    unfolding assms(6) by (simp_all add: launches_def)
  with e show ?thesis by simp
qed

theorem cancel_resync_witness:
  "child kernel_live = Some \<lparr>ident = 0, logfile = False, before_text = []\<rparr> \<and>
   sigint kernel_live = default_int_handler \<and>
   cancel_reply env_cancel_once (clock kernel_live) None \<and>
   \<not> cancel_reply env_cancel_once (Suc (clock kernel_live)) (Some 2) \<and>
   exec_line env_cancel_once (u ''x'') kernel_live =
     (Inr (u ''partial''),
      kernel_live\<lparr>child := Some \<lparr>ident = 0, logfile = False, before_text = u ''partial''\<rparr>,
        clock := 2,
        trace := [SendLine 0 (u ''x''), Expect 0 MAIN_PROMPT_PAT None, SendIntr 0,
                  Expect 0 MAIN_PROMPT_PAT (Some 2)]\<rparr>)"
proof -
  let ?c = "\<lparr>ident = 0, logfile = False, before_text = []\<rparr>"
  have 1: "child kernel_live = Some ?c" by (simp add: sample_defs)
  have 2: "sigint kernel_live = default_int_handler" by (simp add: sample_defs)
  have 3: "cancel_reply env_cancel_once (clock kernel_live) None" by (simp add: sample_defs)
  have 4: "\<not> cancel_reply env_cancel_once (Suc (clock kernel_live)) (Some 2)"
    by (simp add: sample_defs)
  have 5: "u ''partial'' =
    snd (expect_reply env_cancel_once (Suc (clock kernel_live)) (prompt_pat kernel_live) (Some 2))"
    by (simp add: env_cancel_once_def)
  note w = cancel_resync[OF 1 2 3 4 5 refl, of "u ''x''" "[]" "[]"]
  have 6: "Suc (Suc (clock kernel_live)) = 2" "trace kernel_live = []"
    "prompt_pat kernel_live = MAIN_PROMPT_PAT"
    by (simp_all add: sample_defs)
  show ?thesis using 1 2 3 4 w unfolding 6 by simp
qed

text \<open>
  C4. In a handshake where the child was launched, the wait for the datafile prompt
  matched or timed out, and the wait for the main prompt timed out, the kernel sends one
  empty line and waits for the main prompt once more, up to 5: the events of the run are
  exactly those listed, so nothing else is sent or awaited. When that second wait times
  out too, the handshake writes the notice to stderr, makes the fallback pattern the
  active one and returns the child.
\<close>

theorem nudge_then_fallback:
  assumes "spawn_reply env (clock s) = None"
      and "fst (expect_reply env (Suc (clock s)) FILE_PROMPT_PAT (Some timeout)) = f"
      and "f = Matched \<or> f = TimedOut m0"
      and "fst (expect_reply env (Suc (Suc (clock s))) MAIN_PROMPT_PAT (Some timeout)) = TimedOut m1"
      and "expect_reply env (Suc (Suc (Suc (clock s)))) MAIN_PROMPT_PAT (Some 5) = (n, b)"
  shows "trace (snd (spawn_and_handshake env timeout s)) =
           trace s @
           [Signal SIG_DFL, Spawn (evolver_cmd s) timeout,
            Expect (spawns s) FILE_PROMPT_PAT (Some timeout)] @
           (if f = Matched then [] else [Stderr msg_no_datafile_prompt]) @
           [SendLine (spawns s) (default_datafile s),
            Expect (spawns s) MAIN_PROMPT_PAT (Some timeout),
            SendLine (spawns s) [],
            Expect (spawns s) MAIN_PROMPT_PAT (Some 5)] @
           (case n of
              Matched \<Rightarrow> [Stdout msg_ready]
            | TimedOut m \<Rightarrow> [Stderr msg_no_main_prompt, Stdout msg_fallback]
            | _ \<Rightarrow> []) @
           [Signal (sigint s)] \<and>
         ((\<exists>m2. n = TimedOut m2) \<longrightarrow>
            fst (spawn_and_handshake env timeout s) =
              Inr \<lparr>ident = spawns s, logfile = debug s, before_text = b\<rparr> \<and>
            prompt_pat (snd (spawn_and_handshake env timeout s)) = fallback_pat)"
proof -
  from assms(3) show ?thesis
  proof
    assume "f = Matched"
    then show ?thesis using assms(1,2,4,5)
      by (cases n) (simp_all add: handshake_defs)
  next
    assume "f = TimedOut m0"
    then show ?thesis using assms(1,2,4,5)
      by (cases n) (simp_all add: handshake_defs)
  qed
qed

theorem nudge_then_fallback_witness:
  "spawn_reply env_no_prompt (clock kernel_init) = None \<and>
   fst (expect_reply env_no_prompt (Suc (Suc (clock kernel_init))) MAIN_PROMPT_PAT (Some 30)) =
     TimedOut (u ''timeout'') \<and>
   spawn_and_handshake env_no_prompt 30 kernel_init =
     (Inr \<lparr>ident = 0, logfile = False, before_text = []\<rparr>,
      kernel_init\<lparr>prompt_pat := fallback_pat, spawns := 1, clock := 4,
        trace := [Signal SIG_DFL, Spawn (u ''evolver'') 30,
                  Expect 0 FILE_PROMPT_PAT (Some 30), Stderr msg_no_datafile_prompt,
                  SendLine 0 [], Expect 0 MAIN_PROMPT_PAT (Some 30),
                  SendLine 0 [], Expect 0 MAIN_PROMPT_PAT (Some 5),
                  Stderr msg_no_main_prompt, Stdout msg_fallback,
                  Signal default_int_handler]\<rparr>)"
proof -
  have 1: "spawn_reply env_no_prompt (clock kernel_init) = None" by (simp add: sample_defs)
  have 2: "fst (expect_reply env_no_prompt (Suc (clock kernel_init)) FILE_PROMPT_PAT (Some 30)) =
     TimedOut (u ''timeout'')" by (simp add: sample_defs)
  have 3: "TimedOut (u ''timeout'') = Matched \<or> TimedOut (u ''timeout'') = TimedOut (u ''timeout'')"
    by simp
  have 4: "fst (expect_reply env_no_prompt (Suc (Suc (clock kernel_init))) MAIN_PROMPT_PAT (Some 30)) =
     TimedOut (u ''timeout'')" by (simp add: sample_defs)
  have 5: "expect_reply env_no_prompt (Suc (Suc (Suc (clock kernel_init)))) MAIN_PROMPT_PAT (Some 5) =
     (TimedOut (u ''timeout''), [])" by (simp add: sample_defs)
  note w = nudge_then_fallback[OF 1 2 3 4 5]
  have f: "spawns kernel_init = 0" "debug kernel_init = False" "trace kernel_init = []"
    "evolver_cmd kernel_init = u ''evolver''" "default_datafile kernel_init = []"
    "sigint kernel_init = default_int_handler"
    by (simp_all add: kernel_init_def)
  have s: "snd (spawn_and_handshake env_no_prompt 30 kernel_init) =
      kernel_init\<lparr>prompt_pat := fallback_pat, spawns := 1, clock := 4,
        trace := trace (snd (spawn_and_handshake env_no_prompt 30 kernel_init))\<rparr>"
    by (simp add: handshake_defs sample_defs)
  from w have t: "trace (snd (spawn_and_handshake env_no_prompt 30 kernel_init)) =
      [Signal SIG_DFL, Spawn (u ''evolver'') 30,
                  Expect 0 FILE_PROMPT_PAT (Some 30), Stderr msg_no_datafile_prompt,
                  SendLine 0 [], Expect 0 MAIN_PROMPT_PAT (Some 30),
                  SendLine 0 [], Expect 0 MAIN_PROMPT_PAT (Some 5),
                  Stderr msg_no_main_prompt, Stdout msg_fallback,
                  Signal default_int_handler]"
    and r: "fst (spawn_and_handshake env_no_prompt 30 kernel_init) =
      Inr \<lparr>ident = 0, logfile = False, before_text = []\<rparr>"
    unfolding f by simp_all
  have "spawn_and_handshake env_no_prompt 30 kernel_init =
      (fst (spawn_and_handshake env_no_prompt 30 kernel_init),
       snd (spawn_and_handshake env_no_prompt 30 kernel_init))" by simp
  then show ?thesis using 1 4 r s t by simp
qed

text \<open>
  C5. In a handshake where the child was launched and the wait for the datafile prompt
  timed out, the kernel writes the warning to stderr and sends the datafile line all the
  same; when the main prompt then appears, at once or after the empty line, the handshake
  returns the child with the main prompt pattern active. The timeout is the argument of
  \<open>_spawn_and_handshake\<close>; its default and the value \<open>_ensure_evolver\<close> passes are 30.
\<close>

theorem missing_datafile_prompt_tolerated:
  assumes "spawn_reply env (clock s) = None"
      and "fst (expect_reply env (Suc (clock s)) FILE_PROMPT_PAT (Some timeout)) = TimedOut m0"
      and "fst (expect_reply env (Suc (Suc (clock s))) MAIN_PROMPT_PAT (Some timeout)) = r"
      and "r = Matched \<or>
           r = TimedOut m1 \<and>
           fst (expect_reply env (Suc (Suc (Suc (clock s)))) MAIN_PROMPT_PAT (Some 5)) = Matched"
  shows "(\<exists>b. fst (spawn_and_handshake env timeout s) =
                Inr \<lparr>ident = spawns s, logfile = debug s, before_text = b\<rparr>) \<and>
         prompt_pat (snd (spawn_and_handshake env timeout s)) = MAIN_PROMPT_PAT \<and>
         trace (snd (spawn_and_handshake env timeout s)) =
           trace s @
           [Signal SIG_DFL, Spawn (evolver_cmd s) timeout,
            Expect (spawns s) FILE_PROMPT_PAT (Some timeout),
            Stderr msg_no_datafile_prompt,
            SendLine (spawns s) (default_datafile s),
            Expect (spawns s) MAIN_PROMPT_PAT (Some timeout)] @
           (if r = Matched then []
            else [SendLine (spawns s) [], Expect (spawns s) MAIN_PROMPT_PAT (Some 5)]) @
           [Stdout msg_ready, Signal (sigint s)]"
proof -
  from assms(4) show ?thesis
  proof
    assume "r = Matched"
    then show ?thesis using assms(1,2,3)
      by (simp add: handshake_defs)
  next
    assume "r = TimedOut m1 \<and>
           fst (expect_reply env (Suc (Suc (Suc (clock s)))) MAIN_PROMPT_PAT (Some 5)) = Matched"
    then show ?thesis using assms(1,2,3)
      by (simp add: handshake_defs)
  qed
qed

theorem missing_datafile_prompt_tolerated_witness:
  "spawn_reply env_no_datafile_prompt (clock kernel_init) = None \<and>
   fst (expect_reply env_no_datafile_prompt (Suc (clock kernel_init)) FILE_PROMPT_PAT (Some 30)) =
     TimedOut (u ''timeout'') \<and>
   fst (expect_reply env_no_datafile_prompt (Suc (Suc (clock kernel_init))) MAIN_PROMPT_PAT
     (Some 30)) = Matched \<and>
   prompt_pat (snd (spawn_and_handshake env_no_datafile_prompt 30 kernel_init)) =
     MAIN_PROMPT_PAT \<and>
   trace (snd (spawn_and_handshake env_no_datafile_prompt 30 kernel_init)) =
     [Signal SIG_DFL, Spawn (u ''evolver'') 30, Expect 0 FILE_PROMPT_PAT (Some 30),
      Stderr msg_no_datafile_prompt, SendLine 0 [], Expect 0 MAIN_PROMPT_PAT (Some 30),
      Stdout msg_ready, Signal default_int_handler]"
proof -
  have 1: "spawn_reply env_no_datafile_prompt (clock kernel_init) = None"
    by (simp add: sample_defs)
  have 2: "fst (expect_reply env_no_datafile_prompt (Suc (clock kernel_init)) FILE_PROMPT_PAT
     (Some 30)) = TimedOut (u ''timeout'')" by (simp add: sample_defs)
  have 3: "fst (expect_reply env_no_datafile_prompt (Suc (Suc (clock kernel_init)))
     MAIN_PROMPT_PAT (Some 30)) = Matched" by (simp add: sample_defs)
  have 4: "Matched = Matched \<or>
           Matched = TimedOut [] \<and>
           fst (expect_reply env_no_datafile_prompt (Suc (Suc (Suc (clock kernel_init))))
             MAIN_PROMPT_PAT (Some 5)) = Matched" by simp
  note w = missing_datafile_prompt_tolerated[OF 1 2 3 4]
  have f: "spawns kernel_init = 0" "debug kernel_init = False" "trace kernel_init = []"
    "evolver_cmd kernel_init = u ''evolver''" "default_datafile kernel_init = []"
    "sigint kernel_init = default_int_handler"
    by (simp_all add: kernel_init_def)
  show ?thesis using 1 2 3 w unfolding f by simp
qed

text \<open>
  C6. A block that is empty or holds only whitespace gets an ok reply at once, and the
  kernel is exactly as before: no event at all (no launch, no probe, nothing sent, nothing
  written to either stream), no tick of the clock.
\<close>

theorem blank_cell:
  assumes "\<forall>c\<in>set code. isspace c"
  shows "do_execute env code silent s = (Inr (Ok_reply (execution_count s)), s)"
proof -
  have "\<forall>c\<in>set (rstrip_newline code). isspace c"
    using assms set_rstrip_newline by blast
  then have "strip (rstrip_newline code) = []" by (rule strip_blank)
  then show ?thesis by (simp add: do_execute_def)
qed

theorem blank_cell_witness:
  "isspace 32 \<and> isspace 9 \<and> isspace 10 \<and>
   do_execute env_calm [32, 9, 10, 10] False kernel_init = (Inr (Ok_reply 0), kernel_init)"
  using blank_cell[of "[32, 9, 10, 10]" env_calm False kernel_init]
  by (simp add: isspace_def kernel_init_def)



text \<open>
  C8, as stated, fails: the cell \<open>x\<close>, run silently on a child that writes nothing before
  its prompt, captures the empty text, so the condition for withholding (silent, and the
  text not empty) does not hold; yet the events of the run hold no write to stdout at all.
\<close>

theorem output_forwarded_counterexample:
  "fst (do_execute env_mute (u ''x'') True kernel_live) = Inr (Ok_reply 0) \<and>
   fst (do_lines env_mute (nonblank_lines (u ''x'')) []
         (snd (alive env_mute (snd (ensure_evolver env_mute kernel_live))))) = Inr [[]] \<and>
   trace (snd (do_execute env_mute (u ''x'') True kernel_live)) =
     [IsAlive 0, IsAlive 0, SendLine 0 (u ''x''), Expect 0 MAIN_PROMPT_PAT None]"
  by (simp add: do_execute_def ensure_evolver_def alive_def dispatch_def finish_def
        exec_line_def run_line_def wait_outcome_def step_defs sample_defs
        nonblank_lines_def splitlines_def strip_def rstrip_newline_def isspace_def
        is_linebreak_def u_def)

text \<open>
  C8, amended. After the loop, the joined text is written to stdout exactly when the cell
  is not silent and the text is not empty; nothing else is added to the events, and the
  reply is ok.
\<close>

theorem output_forwarded:
  assumes "strip (rstrip_newline code) \<noteq> []"
      and "ensure_evolver env s = (Inr (), s1)"
      and "alive env s1 = (True, s2)"
      and "do_lines env (nonblank_lines (rstrip_newline code)) [] s2 = (Inr outputs, s3)"
  shows "do_execute env code silent s =
           (Inr (Ok_reply (execution_count s3)),
            s3\<lparr>trace := trace s3 @
                  (if \<not> silent \<and> concat outputs \<noteq> [] then [Stdout (concat outputs)] else [])\<rparr>)"
  using assms
  by (simp add: do_execute_def dispatch_def finish_def emit_stdout_def emit_def)

theorem output_forwarded_witness:
  "strip (rstrip_newline (u ''x'')) \<noteq> [] \<and>
   do_execute env_calm (u ''x'') False kernel_live =
     (Inr (Ok_reply 0),
      kernel_live\<lparr>child := Some \<lparr>ident = 0, logfile = False, before_text = u ''ok''\<rparr>,
        clock := 3,
        trace := [IsAlive 0, IsAlive 0, SendLine 0 (u ''x''), Expect 0 MAIN_PROMPT_PAT None,
                  Stdout (u ''ok'')]\<rparr>)"
proof -
  let ?s1 = "kernel_live\<lparr>clock := 1, trace := [IsAlive 0]\<rparr>"
  let ?s2 = "kernel_live\<lparr>clock := 2, trace := [IsAlive 0, IsAlive 0]\<rparr>"
  let ?s3 = "kernel_live\<lparr>child := Some \<lparr>ident = 0, logfile = False, before_text = u ''ok''\<rparr>,
        clock := 3,
        trace := [IsAlive 0, IsAlive 0, SendLine 0 (u ''x''), Expect 0 MAIN_PROMPT_PAT None]\<rparr>"
  have a: "strip (rstrip_newline (u ''x'')) \<noteq> []"
    by (simp add: strip_def rstrip_newline_def isspace_def u_def)
  have b: "ensure_evolver env_calm kernel_live = (Inr (), ?s1)"
    by (simp add: ensure_evolver_def alive_def step_defs sample_defs)
  have c: "alive env_calm ?s1 = (True, ?s2)"
    by (simp add: alive_def step_defs sample_defs)
  have d: "do_lines env_calm (nonblank_lines (rstrip_newline (u ''x''))) [] ?s2 = (Inr [u ''ok''], ?s3)"
    by (simp add: exec_line_def run_line_def wait_outcome_def step_defs sample_defs
        nonblank_lines_def splitlines_def strip_def rstrip_newline_def isspace_def
        is_linebreak_def u_def)
  show ?thesis
    using a output_forwarded[OF a b c d, of False]
    by (simp add: sample_defs u_def)
qed

text \<open>
  C9 is about \<open>terminate()\<close> of the session handle. The kernel neither defines nor calls
  it, and the handle is pexpect's: there is nothing of it in the code modelled here.
\<close>

text \<open>
  C10. The handshake leaves the disposition of SIGINT as it found it, on every way out:
  with a child on the main prompt, with a child on the fallback prompt, or with an
  exception. In between it sets the default disposition: the events of a run start with
  that change and end with the change back.
\<close>

theorem sigint_restored:
  "sigint (snd (spawn_and_handshake env timeout s)) = sigint s \<and>
   (\<exists>evs. trace (snd (spawn_and_handshake env timeout s)) =
      trace s @ Signal SIG_DFL # evs @ [Signal (sigint s)])"
proof -
  let ?s0 = "snd (signal_SIGINT SIG_DFL s)"
  obtain evs where "trace (snd (handshake_try env timeout ?s0)) = trace ?s0 @ evs"
    using handshake_try_trace by blast
  then show ?thesis
    by (simp add: spawn_and_handshake_def signal_SIGINT_def emit_def split_beta)
qed

end
